theory Spec2Isabelle
  imports Main "HOL-Library.Char_ord" "HOL-Library.List_Lexorder"
begin

section \<open>Bytes, strings and errors\<close>

text \<open>
  A Go \<^verbatim>\<open>[]byte\<close> and a Go \<^verbatim>\<open>string\<close> are both sequences of 8-bit bytes, and the
  conversions \<^verbatim>\<open>string(b)\<close> and \<^verbatim>\<open>[]byte(s)\<close> keep the bytes. Both are modelled as
  lists of \<^typ>\<open>char\<close> (an 8-bit value); \<open>of_char\<close> reads the byte as a number.
\<close>

type_synonym bytes = "char list"

text \<open>
  The error values the program builds. \<open>ErrNotFound\<close> is the sentinel
  \<^verbatim>\<open>db.ErrNotFound\<close>, compared by identity in the source. The other constructors are
  the \<^verbatim>\<open>fmt.Errorf\<close> calls of the source, one constructor per format string; a
  \<^typ>\<open>string\<close> argument is the message of the wrapped cause (\<^verbatim>\<open>%w\<close>), a
  \<^typ>\<open>nat\<close> argument the number printed by \<^verbatim>\<open>%d\<close>.
\<close>

datatype error =
    ErrNotFound
  | InvalidKeySize nat
  | AESCipherFailed string
  | GCMCipherFailed string
  | NonceFailed string
  | KeyGenFailed string
  | CiphertextTooShort nat
  | DecryptionFailed string
  | StorageFailed string string
  | KeyNotInitialized
  | KeyDecodeFailed string
  | Wrapped string error

function decimal :: "nat \<Rightarrow> string" where
  "decimal n = (if n < 10 then [''0123456789'' ! n]
                else decimal (n div 10) @ [''0123456789'' ! (n mod 10)])"
  by pat_completeness auto
termination
  by (relation "measure (\<lambda>n. n)") auto

declare decimal.simps [simp del]

text \<open>The text \<^verbatim>\<open>%v\<close> prints for an error (its \<^verbatim>\<open>Error()\<close> string).\<close>

fun error_text :: "error \<Rightarrow> string" where
  "error_text ErrNotFound = ''key not found''"
| "error_text (InvalidKeySize n) =
     ''invalid key size: expected 32 bytes, got '' @ decimal n"
| "error_text (AESCipherFailed m) = ''failed to create AES cipher: '' @ m"
| "error_text (GCMCipherFailed m) = ''failed to create GCM cipher: '' @ m"
| "error_text (NonceFailed m) = ''failed to generate nonce: '' @ m"
| "error_text (KeyGenFailed m) = ''failed to generate encryption key: '' @ m"
| "error_text (CiphertextTooShort n) =
     ''ciphertext too short: expected at least 12 bytes, got '' @ decimal n"
| "error_text (DecryptionFailed m) = ''decryption failed: '' @ m"
| "error_text (StorageFailed ctx m) = ctx @ '': '' @ m"
| "error_text KeyNotInitialized =
     ''encryption key not found. Please run '' @ [CHR 0x27] @ ''lb init'' @ [CHR 0x27] @ '' first''"
| "error_text (KeyDecodeFailed m) = ''failed to decode encryption key: '' @ m"
| "error_text (Wrapped ctx e) = ctx @ '': '' @ error_text e"

section \<open>The standard library's hex codec\<close>

text \<open>
  \<^verbatim>\<open>encoding/hex\<close>, which the key manager uses to store the key. \<^verbatim>\<open>EncodeToString\<close>
  writes two lower-case digits per byte, \<^verbatim>\<open>hextable[v>>4]\<close> and \<^verbatim>\<open>hextable[v&0x0f]\<close>.
  \<^verbatim>\<open>DecodeString\<close> reads the digits in pairs, accepts both cases, reports the first byte
  that is not a hex digit, and reports an odd length only after all the pairs were read.
  A byte holds at most 255, so \<^verbatim>\<open>v>>4\<close> is \<open>v div 16\<close>, \<^verbatim>\<open>v&0x0f\<close> is \<open>v mod 16\<close> and
  \<^verbatim>\<open>(a<<4)|b\<close> is \<open>a * 16 + b\<close> for two digits \<open>a, b < 16\<close>.
\<close>

definition hextable :: string where
  "hextable = ''0123456789abcdef''"

primrec hex_EncodeToString :: "bytes \<Rightarrow> string" where
  "hex_EncodeToString [] = []"
| "hex_EncodeToString (v # src) =
     hextable ! (of_char v div 16) # hextable ! (of_char v mod 16) # hex_EncodeToString src"

datatype hex_error = InvalidByteError char | ErrLength

definition fromHexChar :: "char \<Rightarrow> nat option" where
  "fromHexChar c =
     (let n = (of_char c :: nat) in
      if 48 \<le> n \<and> n \<le> 57 then Some (n - 48)
      else if 97 \<le> n \<and> n \<le> 102 then Some (n - 87)
      else if 65 \<le> n \<and> n \<le> 70 then Some (n - 55)
      else None)"

fun hex_DecodeString :: "string \<Rightarrow> hex_error + bytes" where
  "hex_DecodeString [] = Inr []"
| "hex_DecodeString [p] =
     (case fromHexChar p of None \<Rightarrow> Inl (InvalidByteError p) | Some a \<Rightarrow> Inl ErrLength)"
| "hex_DecodeString (p # q # src) =
     (case fromHexChar p of
        None \<Rightarrow> Inl (InvalidByteError p)
      | Some a \<Rightarrow>
          (case fromHexChar q of
             None \<Rightarrow> Inl (InvalidByteError q)
           | Some b \<Rightarrow>
               (case hex_DecodeString src of
                  Inl e \<Rightarrow> Inl e
                | Inr dst \<Rightarrow> Inr (char_of (a * 16 + b) # dst))))"

text \<open>
  The messages of the two errors. \<^verbatim>\<open>InvalidByteError\<close> prints its byte with
  \<^verbatim>\<open>%#U\<close>: \<^verbatim>\<open>U+\<close> and the code point in four upper-case hex digits, then, when
  \<^verbatim>\<open>strconv.IsPrint\<close> holds of it, a space and the character in single quotes, in
  UTF-8 (two bytes from 128 on). Of the code points below 256 the printable ones are 32
  to 126 and 161 to 255 without 173.
\<close>

definition fmt_sharpU :: "char \<Rightarrow> string" where
  "fmt_sharpU c =
     (let u = (of_char c :: nat) in
      ''U+00'' @ [''0123456789ABCDEF'' ! (u div 16), ''0123456789ABCDEF'' ! (u mod 16)] @
      (if (32 \<le> u \<and> u \<le> 126) \<or> (161 \<le> u \<and> u \<le> 255 \<and> u \<noteq> 173)
       then [CHR '' '', CHR 0x27] @
            (if u < 128 then [c] else [char_of (192 + u div 64), char_of (128 + u mod 64)]) @
            [CHR 0x27]
       else []))"

fun hex_error_text :: "hex_error \<Rightarrow> string" where
  "hex_error_text (InvalidByteError c) = ''encoding/hex: invalid byte: '' @ fmt_sharpU c"
| "hex_error_text ErrLength = ''encoding/hex: odd length hex string''"

section \<open>The random source\<close>

text \<open>
  \<^verbatim>\<open>crypto/rand.Reader\<close> is the program's only source of randomness. It is modelled as
  the bytes it will still deliver: \<^verbatim>\<open>io.ReadFull\<close> of \<open>n\<close> bytes takes them from the
  front, and fails when fewer than \<open>n\<close> are left (the reader stopped delivering).
\<close>

type_synonym rand_source = bytes

definition io_ReadFull :: "rand_source \<Rightarrow> nat \<Rightarrow> (string + bytes) \<times> rand_source" where
  "io_ReadFull r n =
     (if length r < n then (Inl (if r = [] then ''EOF'' else ''unexpected EOF''), [])
      else (Inr (take n r), drop n r))"

section \<open>Package crypto\<close>

definition KeySize :: nat where
  "KeySize = 32"

definition NonceSize :: nat where
  "NonceSize = 12"

text \<open>
  \<^verbatim>\<open>GenerateKey\<close>: 32 bytes read from the random source.
\<close>

definition GenerateKey :: "rand_source \<Rightarrow> (error + bytes) \<times> rand_source" where
  "GenerateKey r =
     (case io_ReadFull r KeySize of
        (Inl m, r') \<Rightarrow> (Inl (KeyGenFailed m), r')
      | (Inr key, r') \<Rightarrow> (Inr key, r'))"

text \<open>
  AES-256-GCM itself is the standard library's (\<^verbatim>\<open>crypto/aes\<close>, \<^verbatim>\<open>crypto/cipher\<close>) and
  is a parameter of the model: \<open>Seal\<close> and \<open>Open\<close> are \<^verbatim>\<open>gcm.Seal(nil, nonce, plaintext, nil)\<close>
  and \<^verbatim>\<open>gcm.Open(nil, nonce, ciphertext, nil)\<close> for the cipher made from a key; \<open>Open\<close>
  returns \<open>None\<close> where the library returns its one error, "cipher: message
  authentication failed".
\<close>

record AEAD =
  Seal :: "bytes \<Rightarrow> bytes \<Rightarrow> bytes \<Rightarrow> bytes"
  Open :: "bytes \<Rightarrow> bytes \<Rightarrow> bytes \<Rightarrow> bytes option"

definition errOpen :: string where
  "errOpen = ''cipher: message authentication failed''"

text \<open>
  \<^verbatim>\<open>aes.NewCipher\<close> rejects every key that is not 16, 24 or 32 bytes long;
  \<^verbatim>\<open>cipher.NewGCM\<close> rejects a block cipher whose block is not 16 bytes, which AES's
  never is. The cipher object is represented by its key.
\<close>

definition aes_NewCipher :: "bytes \<Rightarrow> string + bytes" where
  "aes_NewCipher key =
     (if length key = 16 \<or> length key = 24 \<or> length key = 32 then Inr key
      else Inl (''crypto/aes: invalid key size '' @ decimal (length key)))"

definition cipher_NewGCM :: "bytes \<Rightarrow> string + bytes" where
  "cipher_NewGCM block = Inr block"

text \<open>
  The builtin \<^verbatim>\<open>copy(dst, src)\<close> overwrites the first \<open>min (len dst) (len src)\<close> bytes
  of \<open>dst\<close>.
\<close>

definition go_copy :: "bytes \<Rightarrow> bytes \<Rightarrow> bytes" where
  "go_copy dst src = take (length dst) src @ drop (length src) dst"

definition Encrypt :: "AEAD \<Rightarrow> rand_source \<Rightarrow> bytes \<Rightarrow> bytes \<Rightarrow> (error + bytes) \<times> rand_source" where
  "Encrypt A r plaintext key =
     (if length key \<noteq> KeySize then (Inl (InvalidKeySize (length key)), r)
      else case aes_NewCipher key of
        Inl m \<Rightarrow> (Inl (AESCipherFailed m), r)
      | Inr block \<Rightarrow>
         (case cipher_NewGCM block of
            Inl m \<Rightarrow> (Inl (GCMCipherFailed m), r)
          | Inr gcm \<Rightarrow>
             (case io_ReadFull r NonceSize of
                (Inl m, r') \<Rightarrow> (Inl (NonceFailed m), r')
              | (Inr nonce, r') \<Rightarrow>
                 (let ciphertext = Seal A gcm nonce plaintext;
                      result = replicate (NonceSize + length ciphertext) (CHR 0x00);
                      result = go_copy (take NonceSize result) nonce @ drop NonceSize result;
                      result = take NonceSize result @ go_copy (drop NonceSize result) ciphertext
                  in (Inr result, r')))))"

definition Decrypt :: "AEAD \<Rightarrow> bytes \<Rightarrow> bytes \<Rightarrow> error + bytes" where
  "Decrypt A ciphertext key =
     (if length key \<noteq> KeySize then Inl (InvalidKeySize (length key))
      else if length ciphertext < NonceSize then Inl (CiphertextTooShort (length ciphertext))
      else case aes_NewCipher key of
        Inl m \<Rightarrow> Inl (AESCipherFailed m)
      | Inr block \<Rightarrow>
         (case cipher_NewGCM block of
            Inl m \<Rightarrow> Inl (GCMCipherFailed m)
          | Inr gcm \<Rightarrow>
             (let nonce = take NonceSize ciphertext;
                  actualCiphertext = drop NonceSize ciphertext
              in case Open A gcm nonce actualCiphertext of
                   None \<Rightarrow> Inl (DecryptionFailed errOpen)
                 | Some plaintext \<Rightarrow> Inr plaintext)))"

section \<open>Package db: the store\<close>

text \<open>
  The store is one SQLite database with two tables, \<^verbatim>\<open>config (key TEXT PRIMARY KEY,
  value BLOB)\<close> and \<^verbatim>\<open>secrets (key TEXT PRIMARY KEY, value BLOB, created_at,
  updated_at)\<close>. A table is the list of its rows, each row a pair of its key and its
  other columns. \<open>engine_error\<close> is the condition of the SQL engine: \<open>Some m\<close> when it
  rejects every statement with the message \<open>m\<close> (a closed handle, a locked or unreadable
  file), \<open>None\<close> when it works.
\<close>

record secret_row =
  row_value :: bytes
  row_created_at :: nat
  row_updated_at :: nat

record Store =
  config_rows :: "(string \<times> bytes) list"
  secrets_rows :: "(string \<times> secret_row) list"
  engine_error :: "string option"

text \<open>
  The SQL statements of the source. \<^verbatim>\<open>SELECT value FROM t WHERE key = ?\<close> read with
  \<^verbatim>\<open>QueryRow(...).Scan\<close> gives the first matching row or \<^verbatim>\<open>sql.ErrNoRows\<close>;
  \<^verbatim>\<open>INSERT OR REPLACE\<close> removes the row that holds the same primary key and adds the
  new one; \<^verbatim>\<open>DELETE FROM t WHERE key = ?\<close> removes the matching rows and reports how
  many; \<^verbatim>\<open>SELECT key FROM t ORDER BY key ASC\<close> gives the keys in the order of their
  bytes (SQLite's default collation), which is the lexicographic order on
  \<^typ>\<open>string\<close>.
\<close>

datatype sql_error = ErrNoRows | EngineError string

definition sql_QueryRow :: "string option \<Rightarrow> (string \<times> 'r) list \<Rightarrow> string \<Rightarrow> sql_error + 'r" where
  "sql_QueryRow fault tbl key =
     (case fault of
        Some m \<Rightarrow> Inl (EngineError m)
      | None \<Rightarrow> (case map_of tbl key of None \<Rightarrow> Inl ErrNoRows | Some row \<Rightarrow> Inr row))"

definition sql_InsertOrReplace ::
  "string option \<Rightarrow> (string \<times> 'r) list \<Rightarrow> string \<Rightarrow> 'r \<Rightarrow> string + (string \<times> 'r) list" where
  "sql_InsertOrReplace fault tbl key row =
     (case fault of
        Some m \<Rightarrow> Inl m
      | None \<Rightarrow> Inr (filter (\<lambda>r. fst r \<noteq> key) tbl @ [(key, row)]))"

definition sql_Delete ::
  "string option \<Rightarrow> (string \<times> 'r) list \<Rightarrow> string \<Rightarrow> string + ((string \<times> 'r) list \<times> nat)" where
  "sql_Delete fault tbl key =
     (case fault of
        Some m \<Rightarrow> Inl m
      | None \<Rightarrow> Inr (filter (\<lambda>r. fst r \<noteq> key) tbl, length (filter (\<lambda>r. fst r = key) tbl)))"

definition sql_SelectKeysOrdered :: "string option \<Rightarrow> (string \<times> 'r) list \<Rightarrow> string + string list" where
  "sql_SelectKeysOrdered fault tbl =
     (case fault of Some m \<Rightarrow> Inl m | None \<Rightarrow> Inr (sort (map fst tbl)))"

text \<open>\<^verbatim>\<open>result.RowsAffected()\<close> never fails for this driver.\<close>

definition RowsAffected :: "nat \<Rightarrow> string + nat" where
  "RowsAffected n = Inr n"

text \<open>
  \<^verbatim>\<open>migrate\<close> runs \<^verbatim>\<open>CREATE TABLE IF NOT EXISTS\<close> for both tables: existing tables
  and their rows stay as they are, and a new database file gets two empty tables, which
  is \<open>fresh_db\<close>.
\<close>

definition migrate :: "Store \<Rightarrow> error option \<times> Store" where
  "migrate s =
     (case engine_error s of
        Some m \<Rightarrow> (Some (StorageFailed ''failed to create tables'' m), s)
      | None \<Rightarrow> (None, s))"

definition fresh_db :: Store where
  "fresh_db = \<lparr>config_rows = [], secrets_rows = [], engine_error = None\<rparr>"

text \<open>
  \<^verbatim>\<open>NewStore\<close> opens the database file (its argument here; finding the file's path is
  outside the model), pings it and migrates it.
\<close>

definition NewStore :: "Store \<Rightarrow> error + Store" where
  "NewStore db =
     (case engine_error db of
        Some m \<Rightarrow> Inl (StorageFailed ''failed to ping database'' m)
      | None \<Rightarrow>
         (case migrate db of
            (Some err, store) \<Rightarrow> Inl (Wrapped ''migration failed'' err)
          | (None, store) \<Rightarrow> Inr store))"

definition GetConfig :: "Store \<Rightarrow> string \<Rightarrow> error + bytes" where
  "GetConfig s key =
     (case sql_QueryRow (engine_error s) (config_rows s) key of
        Inl ErrNoRows \<Rightarrow> Inl ErrNotFound
      | Inl (EngineError m) \<Rightarrow> Inl (StorageFailed ''failed to get config'' m)
      | Inr v \<Rightarrow> Inr v)"

definition SetConfig :: "Store \<Rightarrow> string \<Rightarrow> bytes \<Rightarrow> error option \<times> Store" where
  "SetConfig s key v =
     (case sql_InsertOrReplace (engine_error s) (config_rows s) key v of
        Inl m \<Rightarrow> (Some (StorageFailed ''failed to set config'' m), s)
      | Inr tbl \<Rightarrow> (None, s\<lparr>config_rows := tbl\<rparr>))"

text \<open>\<open>now\<close> is the value of \<^verbatim>\<open>CURRENT_TIMESTAMP\<close> when the statement runs.\<close>

definition SetSecret :: "Store \<Rightarrow> nat \<Rightarrow> string \<Rightarrow> bytes \<Rightarrow> error option \<times> Store" where
  "SetSecret s now key encryptedValue =
     (case sql_InsertOrReplace (engine_error s) (secrets_rows s) key
             \<lparr>row_value = encryptedValue, row_created_at = now, row_updated_at = now\<rparr> of
        Inl m \<Rightarrow> (Some (StorageFailed ''failed to set secret'' m), s)
      | Inr tbl \<Rightarrow> (None, s\<lparr>secrets_rows := tbl\<rparr>))"

definition GetSecret :: "Store \<Rightarrow> string \<Rightarrow> error + bytes" where
  "GetSecret s key =
     (case sql_QueryRow (engine_error s) (secrets_rows s) key of
        Inl ErrNoRows \<Rightarrow> Inl ErrNotFound
      | Inl (EngineError m) \<Rightarrow> Inl (StorageFailed ''failed to get secret'' m)
      | Inr row \<Rightarrow> Inr (row_value row))"

definition DeleteSecret :: "Store \<Rightarrow> string \<Rightarrow> error option \<times> Store" where
  "DeleteSecret s key =
     (case sql_Delete (engine_error s) (secrets_rows s) key of
        Inl m \<Rightarrow> (Some (StorageFailed ''failed to delete secret'' m), s)
      | Inr (tbl, n) \<Rightarrow>
         (case RowsAffected n of
            Inl m \<Rightarrow> (Some (StorageFailed ''failed to get rows affected'' m), s\<lparr>secrets_rows := tbl\<rparr>)
          | Inr rowsAffected \<Rightarrow>
             (if rowsAffected = 0 then (Some ErrNotFound, s\<lparr>secrets_rows := tbl\<rparr>)
              else (None, s\<lparr>secrets_rows := tbl\<rparr>))))"

text \<open>
  The \<^verbatim>\<open>rows.Next()\<close> loop of \<^verbatim>\<open>ListSecrets\<close>: each key is appended to \<open>keys\<close>.
  The engine's condition is fixed for the length of a call, so a failing engine shows at
  the query; the loop's own error returns (\<^verbatim>\<open>rows.Scan\<close>, \<^verbatim>\<open>rows.Err\<close>) would need
  an engine that fails after it answered the query and are not reached here.
\<close>

primrec scan_rows :: "string list \<Rightarrow> string list \<Rightarrow> string list" where
  "scan_rows keys [] = keys"
| "scan_rows keys (key # rows) = scan_rows (keys @ [key]) rows"

definition ListSecrets :: "Store \<Rightarrow> error + string list" where
  "ListSecrets s =
     (case sql_SelectKeysOrdered (engine_error s) (secrets_rows s) of
        Inl m \<Rightarrow> Inl (StorageFailed ''failed to list secrets'' m)
      | Inr rows \<Rightarrow> Inr (scan_rows [] rows))"

text \<open>
  The keys of the secrets mapping, and the invariant the \<^verbatim>\<open>PRIMARY KEY\<close> constraint
  keeps: no two rows of a table hold the same key.
\<close>

definition secret_keys :: "Store \<Rightarrow> string set" where
  "secret_keys s = fst ` set (secrets_rows s)"

definition pk_unique :: "(string \<times> 'r) list \<Rightarrow> bool" where
  "pk_unique tbl = distinct (map fst tbl)"

text \<open>A sequence of operations on the secrets mapping, each run whatever the last returned.\<close>

datatype secret_op = OpSetSecret nat string bytes | OpDeleteSecret string

fun apply_secret_op :: "Store \<Rightarrow> secret_op \<Rightarrow> Store" where
  "apply_secret_op s (OpSetSecret now key v) = snd (SetSecret s now key v)"
| "apply_secret_op s (OpDeleteSecret key) = snd (DeleteSecret s key)"

section \<open>Package main\<close>

subsection \<open>The key manager\<close>

definition getStoreAndKey :: "Store \<Rightarrow> error + (Store \<times> bytes)" where
  "getStoreAndKey db =
     (case NewStore db of
        Inl err \<Rightarrow> Inl (Wrapped ''failed to open store'' err)
      | Inr store \<Rightarrow>
         (case GetConfig store ''encryption_key'' of
            Inl err \<Rightarrow>
              (if err = ErrNotFound then Inl KeyNotInitialized
               else Inl (Wrapped ''failed to get encryption key'' err))
          | Inr keyHex \<Rightarrow>
             (case hex_DecodeString keyHex of
                Inl err \<Rightarrow> Inl (KeyDecodeFailed (hex_error_text err))
              | Inr key \<Rightarrow> Inr (store, key))))"

text \<open>
  The \<^verbatim>\<open>init\<close> command. \<open>Created\<close> is the run that prints "Lockbox initialized
  successfully", \<open>AlreadyInitialized\<close> the run that prints "Lockbox is already
  initialized. Encryption key already exists." (both leave with status 0), and
  \<open>InitFailed\<close> a run that prints the error and leaves with status 1. The command
  returns with the database and the random source as it left them.
\<close>

datatype init_outcome = Created | AlreadyInitialized | InitFailed error

definition initCmd_Run :: "rand_source \<Rightarrow> Store \<Rightarrow> init_outcome \<times> Store \<times> rand_source" where
  "initCmd_Run r db =
     (case NewStore db of
        Inl err \<Rightarrow> (InitFailed (Wrapped ''failed to create store'' err), db, r)
      | Inr store \<Rightarrow>
         (case GetConfig store ''encryption_key'' of
            Inr v \<Rightarrow> (AlreadyInitialized, store, r)
          | Inl err \<Rightarrow>
             (if err \<noteq> ErrNotFound
              then (InitFailed (Wrapped ''failed to check for existing key'' err), store, r)
              else case GenerateKey r of
                (Inl err, r') \<Rightarrow>
                  (InitFailed (Wrapped ''failed to generate encryption key'' err), store, r')
              | (Inr key, r') \<Rightarrow>
                 (let keyHex = hex_EncodeToString key
                  in case SetConfig store ''encryption_key'' keyHex of
                       (Some err, store') \<Rightarrow>
                         (InitFailed (Wrapped ''failed to store encryption key'' err), store', r')
                     | (None, store') \<Rightarrow> (Created, store', r')))))"

subsection \<open>The export line\<close>

text \<open>
  \<^verbatim>\<open>strings.NewReplacer\<close> with old strings of one byte each replaces byte by byte, in
  one pass from left to right: a byte that is an old string is replaced by its new
  string (the first pair wins), any other byte is kept, and nothing that was written is
  read again. The \<^verbatim>\<open>env\<close> command and the \<^verbatim>\<open>/env\<close> handler build the same replacer
  and print the same line, \<^verbatim>\<open>"export %s=\"%s\"\n"\<close>.
\<close>

primrec Replacer_Replace :: "(char \<times> string) list \<Rightarrow> string \<Rightarrow> string" where
  "Replacer_Replace oldnew [] = []"
| "Replacer_Replace oldnew (b # s) =
     (case map_of oldnew b of Some new \<Rightarrow> new | None \<Rightarrow> [b]) @ Replacer_Replace oldnew s"

definition escapedValue :: "string \<Rightarrow> string" where
  "escapedValue v =
     Replacer_Replace
       [(CHR 0x5C, [CHR 0x5C, CHR 0x5C]),
        (CHR 0x22, [CHR 0x5C, CHR 0x22]),
        (CHR ''$'', [CHR 0x5C, CHR ''$'']),
        (CHR 0x60, [CHR 0x5C, CHR 0x60])] v"

definition export_line :: "string \<Rightarrow> bytes \<Rightarrow> string" where
  "export_line key decrypted =
     ''export '' @ key @ [CHR ''='', CHR 0x22] @ escapedValue decrypted @ [CHR 0x22, CHR 0x0A]"

subsection \<open>The server's get-one handler\<close>

text \<open>
  What a handler has done to its \<^verbatim>\<open>http.ResponseWriter\<close>: the status it wrote if any,
  the headers that go out with it, and the body. \<^verbatim>\<open>WriteHeader\<close> counts only the first
  time; the first \<^verbatim>\<open>Write\<close> sends status 200 if none was written; a header set after the
  status was written is not sent.
\<close>

record ResponseWriter =
  rw_status :: "nat option"
  rw_header :: "(string \<times> string) list"
  rw_body :: bytes

definition new_response :: ResponseWriter where
  "new_response = \<lparr>rw_status = None, rw_header = [], rw_body = []\<rparr>"

definition WriteHeader :: "nat \<Rightarrow> ResponseWriter \<Rightarrow> ResponseWriter" where
  "WriteHeader code w = (if rw_status w = None then w\<lparr>rw_status := Some code\<rparr> else w)"

definition Header_Set :: "string \<Rightarrow> string \<Rightarrow> ResponseWriter \<Rightarrow> ResponseWriter" where
  "Header_Set name v w =
     (if rw_status w = None
      then w\<lparr>rw_header := filter (\<lambda>h. fst h \<noteq> name) (rw_header w) @ [(name, v)]\<rparr>
      else w)"

definition Write :: "bytes \<Rightarrow> ResponseWriter \<Rightarrow> ResponseWriter" where
  "Write b w = (let w' = WriteHeader 200 w in w'\<lparr>rw_body := rw_body w' @ b\<rparr>)"

text \<open>The status the client receives: 200 when the handler wrote nothing at all.\<close>

definition sent_status :: "ResponseWriter \<Rightarrow> nat" where
  "sent_status w = (case rw_status w of None \<Rightarrow> 200 | Some code \<Rightarrow> code)"

definition strings_TrimPrefix :: "string \<Rightarrow> string \<Rightarrow> string" where
  "strings_TrimPrefix s prefix =
     (if take (length prefix) s = prefix then drop (length prefix) s else s)"

text \<open>
  The handler registered for \<^verbatim>\<open>/secrets/\<close>; \<open>store\<close> and \<open>encKey\<close> are what
  \<open>getStoreAndKey\<close> returned when the server started, \<open>path\<close> is \<^verbatim>\<open>r.URL.Path\<close>.
\<close>

definition secretsHandler :: "AEAD \<Rightarrow> Store \<Rightarrow> bytes \<Rightarrow> string \<Rightarrow> ResponseWriter \<Rightarrow> ResponseWriter" where
  "secretsHandler A store encKey path w =
     (let key = strings_TrimPrefix path ''/secrets/'' in
      if key = [] then Write ''Error: no key specified'' (WriteHeader 400 w)
      else case GetSecret store key of
        Inl err \<Rightarrow>
          (if err = ErrNotFound
           then Write (''Error: secret '' @ [CHR 0x27] @ key @ [CHR 0x27] @ '' not found'')
                  (WriteHeader 404 w)
           else Write (''Error: '' @ error_text err) (WriteHeader 500 w))
      | Inr encrypted \<Rightarrow>
         (case Decrypt A encrypted encKey of
            Inl err \<Rightarrow> Write (''Error: '' @ error_text err) (WriteHeader 500 w)
          | Inr decrypted \<Rightarrow> Write decrypted (Header_Set ''Content-Type'' ''text/plain'' w)))"

section \<open>What the specification refers to\<close>

text \<open>
  The escaping as the specification words it: each backslash, double quote, dollar sign
  and backtick of the plaintext gets one backslash in front of it, every other byte is
  copied.
\<close>

definition shell_special :: "char \<Rightarrow> bool" where
  "shell_special c \<longleftrightarrow> c = CHR 0x5C \<or> c = CHR 0x22 \<or> c = CHR ''$'' \<or> c = CHR 0x60"

definition spec_escaped :: "string \<Rightarrow> string" where
  "spec_escaped p = concat (map (\<lambda>c. if shell_special c then [CHR 0x5C, c] else [c]) p)"

text \<open>
  How a POSIX shell reads text that follows an opening double quote (Shell Command
  Language, 2.2.3): an unquoted double quote ends the string; a backslash followed by a
  dollar sign, backtick, double quote or backslash stands for that character; a backslash
  followed by a newline is removed with it; any other backslash is literal; a dollar sign
  or backtick that is not escaped starts an expansion, so the text is not a literal then
  (\<open>None\<close>, as for a string that never ends). The result is the value read and the text
  after the closing quote.
\<close>

fun posix_dquote :: "string \<Rightarrow> (string \<times> string) option" where
  "posix_dquote [] = None"
| "posix_dquote (c # cs) =
     (if c = CHR 0x22 then Some ([], cs)
      else if c = CHR ''$'' \<or> c = CHR 0x60 then None
      else if c = CHR 0x5C then
        (case cs of
           [] \<Rightarrow> None
         | d # ds \<Rightarrow>
            (if shell_special d then map_option (\<lambda>(v, rest). (d # v, rest)) (posix_dquote ds)
             else if d = CHR 0x0A then posix_dquote ds
             else map_option (\<lambda>(v, rest). (CHR 0x5C # d # v, rest)) (posix_dquote ds)))
      else map_option (\<lambda>(v, rest). (c # v, rest)) (posix_dquote cs))"

text \<open>
  What the documentation of \<^verbatim>\<open>cipher.AEAD\<close> promises of GCM with a 32-byte key and a
  12-byte nonce: opening what was sealed under the same key and nonce gives the plaintext
  back, and sealing adds a tag of 16 bytes.
\<close>

definition aead_correct :: "AEAD \<Rightarrow> bool" where
  "aead_correct A \<longleftrightarrow>
     (\<forall>key nonce p. length key = 32 \<and> length nonce = 12 \<longrightarrow>
        Open A key nonce (Seal A key nonce p) = Some p)"

definition aead_tag16 :: "AEAD \<Rightarrow> bool" where
  "aead_tag16 A \<longleftrightarrow>
     (\<forall>key nonce p. length key = 32 \<and> length nonce = 12 \<longrightarrow>
        length (Seal A key nonce p) = length p + 16)"



text \<open>
  The smallest instance of the interface, which shows that both promises can be kept: the
  sealed message is the plaintext followed by the first 16 bytes of the key, and opening
  checks that tag. It hides nothing and is used for examples only.
\<close>

definition tag_aead :: AEAD where
  "tag_aead =
     \<lparr>Seal = (\<lambda>key nonce p. p @ take 16 key),
      Open = (\<lambda>key nonce c.
        if 16 \<le> length c \<and> drop (length c - 16) c = take 16 key
        then Some (take (length c - 16) c) else None)\<rparr>"

text \<open>
  A second instance, whose tag depends on the sealed bytes as well as on the key: the tag
  is a checksum of the plaintext followed by the first 15 bytes of the key. It rejects
  every change of a single byte of what it sealed.
\<close>

definition checksum :: "bytes \<Rightarrow> nat" where
  "checksum p = sum_list (map of_char p) mod 256"

definition sum_aead :: AEAD where
  "sum_aead =
     \<lparr>Seal = (\<lambda>key nonce p. p @ char_of (checksum p) # take 15 key),
      Open = (\<lambda>key nonce c.
        if 16 \<le> length c \<and>
           drop (length c - 16) c = char_of (checksum (take (length c - 16) c)) # take 15 key
        then Some (take (length c - 16) c) else None)\<rparr>"

section \<open>Encrypt and Decrypt\<close>

lemma go_copy_full: "length dst = length src \<Longrightarrow> go_copy dst src = src"
  by (simp add: go_copy_def)

text \<open>With a 32-byte key and 12 random bytes, the blob is the nonce followed by the sealed text.\<close>

lemma Encrypt_result:
  assumes "length key = 32" "12 \<le> length r"
  shows "Encrypt A r p key = (Inr (take 12 r @ Seal A key (take 12 r) p), drop 12 r)"
  using assms
  by (simp add: Encrypt_def KeySize_def NonceSize_def aes_NewCipher_def cipher_NewGCM_def
      io_ReadFull_def Let_def go_copy_full)

lemma Encrypt_Inr_iff:
  assumes "length key = 32"
  shows "Encrypt A r p key = (Inr blob, r') \<longleftrightarrow>
         12 \<le> length r \<and> blob = take 12 r @ Seal A key (take 12 r) p \<and> r' = drop 12 r"
proof (cases "12 \<le> length r")
  case True
  then show ?thesis using Encrypt_result[OF assms True, of A p] by auto
next
  case False
  then show ?thesis using assms
    by (simp add: Encrypt_def KeySize_def NonceSize_def aes_NewCipher_def cipher_NewGCM_def
      io_ReadFull_def)
qed

lemma Decrypt_framed:
  assumes "length key = 32" "length nonce = 12"
  shows "Decrypt A (nonce @ c) key =
         (case Open A key nonce c of None \<Rightarrow> Inl (DecryptionFailed errOpen) | Some p \<Rightarrow> Inr p)"
  using assms
  by (simp add: Decrypt_def KeySize_def NonceSize_def aes_NewCipher_def cipher_NewGCM_def Let_def)

lemma tag_aead_correct: "aead_correct tag_aead"
  by (simp add: aead_correct_def tag_aead_def)

lemma tag_aead_tag16: "aead_tag16 tag_aead"
  by (simp add: aead_tag16_def tag_aead_def)

text \<open>
  Claim C1. For every byte sequence \<open>p\<close> and every 32-byte key, decrypting the blob that
  \<open>Encrypt\<close> produced for \<open>p\<close> with the same key succeeds and returns exactly \<open>p\<close>. GCM
  enters through the one property the round trip needs, that \<open>Open\<close> undoes \<open>Seal\<close>; what
  is proved of the program is that the nonce it puts in front of the sealed text is the
  nonce it cuts off again.
\<close>

theorem Decrypt_Encrypt_roundtrip:
  assumes "aead_correct A" "length key = 32" "Encrypt A r p key = (Inr blob, r')"
  shows "Decrypt A blob key = Inr p"
proof -
  from assms(3) have r: "12 \<le> length r" and b: "blob = take 12 r @ Seal A key (take 12 r) p"
    unfolding Encrypt_Inr_iff[OF assms(2)] by simp_all
  have n: "length (take 12 r) = 12" using r by simp
  have "Open A key (take 12 r) (Seal A key (take 12 r) p) = Some p"
    using assms(1,2) n unfolding aead_correct_def by blast
  then show ?thesis unfolding b by (simp add: Decrypt_framed[OF assms(2) n])
qed

theorem Decrypt_Encrypt_roundtrip_witness:
  "aead_correct tag_aead \<and> length ''kkkkkkkkkkkkkkkkkkkkkkkkkkkkkkkk'' = (32::nat) \<and>
   Encrypt tag_aead ''nnnnnnnnnnnn'' ''hello'' ''kkkkkkkkkkkkkkkkkkkkkkkkkkkkkkkk'' =
     (Inr ''nnnnnnnnnnnnhellokkkkkkkkkkkkkkkk'', []) \<and>
   Decrypt tag_aead ''nnnnnnnnnnnnhellokkkkkkkkkkkkkkkk'' ''kkkkkkkkkkkkkkkkkkkkkkkkkkkkkkkk'' =
     Inr ''hello''"
proof -
  have e: "Encrypt tag_aead ''nnnnnnnnnnnn'' ''hello'' ''kkkkkkkkkkkkkkkkkkkkkkkkkkkkkkkk'' =
     (Inr ''nnnnnnnnnnnnhellokkkkkkkkkkkkkkkk'', [])"
    by (simp add: Encrypt_result tag_aead_def)
  show ?thesis
    using Decrypt_Encrypt_roundtrip[OF tag_aead_correct _ e] e tag_aead_correct by simp
qed

text \<open>
  Claim C8. \<open>Encrypt\<close> fails with the invalid-key-size error for every key that is not
  32 bytes long. For every 32-byte key, once the random source has delivered the 12
  bytes of the nonce, it succeeds and returns the nonce followed by the sealed text,
  which is the plaintext's length plus the 16 bytes of the tag: the blob is 28 bytes
  longer than the plaintext, and so never empty.
\<close>

theorem Encrypt_blob:
  "(length key \<noteq> 32 \<longrightarrow> fst (Encrypt A r p key) = Inl (InvalidKeySize (length key))) \<and>
   (length key = 32 \<and> 12 \<le> length r \<and> aead_tag16 A \<longrightarrow>
      Encrypt A r p key = (Inr (take 12 r @ Seal A key (take 12 r) p), drop 12 r) \<and>
      length (take 12 r) = 12 \<and>
      length (Seal A key (take 12 r) p) = length p + 16 \<and>
      length (take 12 r @ Seal A key (take 12 r) p) = length p + 28 \<and>
      take 12 r @ Seal A key (take 12 r) p \<noteq> [])"
proof (intro conjI impI)
  assume "length key \<noteq> 32"
  then show "fst (Encrypt A r p key) = Inl (InvalidKeySize (length key))"
    by (simp add: Encrypt_def KeySize_def)
next
  assume a: "length key = 32 \<and> 12 \<le> length r \<and> aead_tag16 A"
  then show "Encrypt A r p key = (Inr (take 12 r @ Seal A key (take 12 r) p), drop 12 r)"
    by (simp add: Encrypt_result)
  from a show n: "length (take 12 r) = 12" by simp
  from a n show l: "length (Seal A key (take 12 r) p) = length p + 16"
    unfolding aead_tag16_def by blast
  from n l show "length (take 12 r @ Seal A key (take 12 r) p) = length p + 28"
    by simp
  from a show "take 12 r @ Seal A key (take 12 r) p \<noteq> []" by auto
qed

theorem Encrypt_blob_witness:
  "length ''short'' \<noteq> (32::nat) \<and>
   fst (Encrypt tag_aead [] ''test'' ''short'') = Inl (InvalidKeySize 5) \<and>
   length ''kkkkkkkkkkkkkkkkkkkkkkkkkkkkkkkk'' = (32::nat) \<and>
   (12::nat) \<le> length ''nnnnnnnnnnnn'' \<and> aead_tag16 tag_aead \<and>
   Encrypt tag_aead ''nnnnnnnnnnnn'' [] ''kkkkkkkkkkkkkkkkkkkkkkkkkkkkkkkk'' =
     (Inr ''nnnnnnnnnnnnkkkkkkkkkkkkkkkk'', []) \<and>
   length ''nnnnnnnnnnnnkkkkkkkkkkkkkkkk'' = (28::nat)"
  using Encrypt_blob[where key = "''short''" and A = tag_aead and r = "[]" and p = "''test''"]
    Encrypt_blob[where key = "''kkkkkkkkkkkkkkkkkkkkkkkkkkkkkkkk''" and A = tag_aead
      and r = "''nnnnnnnnnnnn''" and p = "[]"]
    tag_aead_tag16
  by (simp add: tag_aead_def)

subsection \<open>What Decrypt rejects\<close>

lemma sum_aead_correct: "aead_correct sum_aead"
  by (simp add: aead_correct_def sum_aead_def)

lemma sum_aead_tag16: "aead_tag16 sum_aead"
  by (simp add: aead_tag16_def sum_aead_def)














section \<open>The store\<close>

lemma scan_rows_append: "scan_rows keys rows = keys @ rows"
  by (induction rows arbitrary: keys) simp_all

lemma ListSecrets_working:
  "engine_error s = None \<Longrightarrow> ListSecrets s = Inr (sort (map fst (secrets_rows s)))"
  by (simp add: ListSecrets_def sql_SelectKeysOrdered_def scan_rows_append)

lemma filter_key_empty: "filter (\<lambda>r. fst r = key) tbl = [] \<longleftrightarrow> key \<notin> fst ` set tbl"
  by (auto simp: filter_empty_conv)

text \<open>
  Claim C5. With a working engine, \<open>DeleteSecret\<close> returns the not-found error exactly
  when the key is not in the secrets mapping, which it learns from the count of deleted
  rows; an error of the engine is reported as a storage error, never as not-found.
  After a delete that succeeded, \<open>GetSecret\<close> of the same key returns not-found.
\<close>

theorem DeleteSecret_NotFound:
  "(engine_error s = None \<longrightarrow>
      (fst (DeleteSecret s key) = Some ErrNotFound \<longleftrightarrow> key \<notin> secret_keys s)) \<and>
   (engine_error s \<noteq> None \<longrightarrow> fst (DeleteSecret s key) \<noteq> Some ErrNotFound) \<and>
   (fst (DeleteSecret s key) = None \<longrightarrow>
      key \<in> secret_keys s \<and> GetSecret (snd (DeleteSecret s key)) key = Inl ErrNotFound)"
proof (intro conjI impI)
  assume "engine_error s = None"
  then show "fst (DeleteSecret s key) = Some ErrNotFound \<longleftrightarrow> key \<notin> secret_keys s"
    by (simp add: DeleteSecret_def sql_Delete_def RowsAffected_def secret_keys_def
        filter_key_empty)
next
  assume "engine_error s \<noteq> None"
  then show "fst (DeleteSecret s key) \<noteq> Some ErrNotFound"
    by (auto simp: DeleteSecret_def sql_Delete_def)
next
  assume d: "fst (DeleteSecret s key) = None"
  then have w: "engine_error s = None"
    by (auto simp: DeleteSecret_def sql_Delete_def split: option.splits)
  from d w show "key \<in> secret_keys s"
    by (simp add: DeleteSecret_def sql_Delete_def RowsAffected_def secret_keys_def
        filter_key_empty split: if_splits)
  have "map_of (filter (\<lambda>r. fst r \<noteq> key) (secrets_rows s)) key = None"
    by (simp add: map_of_eq_None_iff image_iff)
  with d w show "GetSecret (snd (DeleteSecret s key)) key = Inl ErrNotFound"
    by (simp add: DeleteSecret_def sql_Delete_def RowsAffected_def GetSecret_def
        sql_QueryRow_def split: if_splits)
qed

theorem DeleteSecret_NotFound_witness:
  "engine_error (snd (SetSecret fresh_db 1 ''k'' ''blob'')) = None \<and>
   fst (DeleteSecret (snd (SetSecret fresh_db 1 ''k'' ''blob'')) ''nonexistent'') = Some ErrNotFound \<and>
   ''nonexistent'' \<notin> secret_keys (snd (SetSecret fresh_db 1 ''k'' ''blob'')) \<and>
   fst (DeleteSecret (snd (SetSecret fresh_db 1 ''k'' ''blob'')) ''k'') = None \<and>
   GetSecret (snd (DeleteSecret (snd (SetSecret fresh_db 1 ''k'' ''blob'')) ''k'')) ''k'' =
     Inl ErrNotFound \<and>
   engine_error (fresh_db\<lparr>engine_error := Some ''database is locked''\<rparr>) \<noteq> None \<and>
   fst (DeleteSecret (fresh_db\<lparr>engine_error := Some ''database is locked''\<rparr>) ''k'') =
     Some (StorageFailed ''failed to delete secret'' ''database is locked'')"
  using DeleteSecret_NotFound[of "snd (SetSecret fresh_db 1 ''k'' ''blob'')" "''nonexistent''"]
    DeleteSecret_NotFound[of "snd (SetSecret fresh_db 1 ''k'' ''blob'')" "''k''"]
    DeleteSecret_NotFound[of "fresh_db\<lparr>engine_error := Some ''database is locked''\<rparr>" "''k''"]
  by (simp add: SetSecret_def DeleteSecret_def GetSecret_def sql_InsertOrReplace_def
      sql_Delete_def sql_QueryRow_def RowsAffected_def fresh_db_def secret_keys_def)

text \<open>
  Every operation keeps the keys of the secrets table unique, as the primary key
  demands, starting from the empty table of a new database.
\<close>

lemma pk_unique_insert:
  "pk_unique tbl \<Longrightarrow> pk_unique (filter (\<lambda>r. fst r \<noteq> key) tbl @ [(key, row)])"
  by (auto simp: pk_unique_def distinct_map_filter)

lemma pk_unique_delete: "pk_unique tbl \<Longrightarrow> pk_unique (filter (\<lambda>r. fst r \<noteq> key) tbl)"
  by (simp add: pk_unique_def distinct_map_filter)

lemma apply_secret_op_pk:
  "pk_unique (secrets_rows s) \<Longrightarrow> pk_unique (secrets_rows (apply_secret_op s op))"
  by (cases op)
     (auto simp: SetSecret_def DeleteSecret_def sql_InsertOrReplace_def sql_Delete_def
        RowsAffected_def pk_unique_insert pk_unique_delete split: option.splits)

lemma foldl_secret_ops_pk:
  "pk_unique (secrets_rows s) \<Longrightarrow> pk_unique (secrets_rows (foldl apply_secret_op s ops))"
  by (induction ops arbitrary: s) (simp_all add: apply_secret_op_pk)

lemma fresh_db_pk: "pk_unique (secrets_rows fresh_db)"
  by (simp add: fresh_db_def pk_unique_def)

text \<open>
  Claim C6. With a working engine, \<open>ListSecrets\<close> returns every key of the secrets
  mapping exactly once, in ascending lexical order, and for an empty store it returns
  the empty sequence, not an error.
\<close>

theorem ListSecrets_sorted:
  assumes "engine_error s = None" "pk_unique (secrets_rows s)"
  shows "\<exists>keys. ListSecrets s = Inr keys \<and> set keys = secret_keys s \<and> distinct keys \<and>
           sorted keys \<and> (secrets_rows s = [] \<longrightarrow> keys = [])"
  using assms by (simp add: ListSecrets_working secret_keys_def pk_unique_def)

theorem ListSecrets_sorted_witness:
  "engine_error (foldl apply_secret_op fresh_db
     [OpSetSecret 1 ''b'' ''x'', OpSetSecret 2 ''a'' ''y'', OpSetSecret 3 ''c'' ''z'']) = None \<and>
   pk_unique (secrets_rows (foldl apply_secret_op fresh_db
     [OpSetSecret 1 ''b'' ''x'', OpSetSecret 2 ''a'' ''y'', OpSetSecret 3 ''c'' ''z''])) \<and>
   ListSecrets (foldl apply_secret_op fresh_db
     [OpSetSecret 1 ''b'' ''x'', OpSetSecret 2 ''a'' ''y'', OpSetSecret 3 ''c'' ''z'']) =
     Inr [''a'', ''b'', ''c''] \<and>
   ListSecrets fresh_db = Inr []"
  using ListSecrets_sorted[of "foldl apply_secret_op fresh_db
     [OpSetSecret 1 ''b'' ''x'', OpSetSecret 2 ''a'' ''y'', OpSetSecret 3 ''c'' ''z'']"]
    ListSecrets_sorted[of fresh_db]
  by (simp add: SetSecret_def sql_InsertOrReplace_def fresh_db_def pk_unique_def
      ListSecrets_def sql_SelectKeysOrdered_def)

lemma apply_secret_op_config:
  "config_rows (apply_secret_op s op) = config_rows s \<and>
   engine_error (apply_secret_op s op) = engine_error s"
  by (cases op)
     (auto simp: SetSecret_def DeleteSecret_def sql_InsertOrReplace_def sql_Delete_def
        RowsAffected_def split: option.splits)

lemma foldl_secret_ops_config:
  "config_rows (foldl apply_secret_op s ops) = config_rows s \<and>
   engine_error (foldl apply_secret_op s ops) = engine_error s"
  by (induction ops arbitrary: s) (simp_all add: apply_secret_op_config)

lemma GetConfig_cong:
  "config_rows s' = config_rows s \<Longrightarrow> engine_error s' = engine_error s \<Longrightarrow>
   GetConfig s' name = GetConfig s name"
  by (simp add: GetConfig_def)

text \<open>
  Claim C10. The secrets and the config mappings are separate tables: after any sequence
  of \<open>SetSecret\<close> (upsert) and \<open>DeleteSecret\<close> operations, \<open>GetConfig\<close> returns for every
  config name what it returned before. In particular, storing or deleting a secret that
  is named "encryption_key" leaves the stored encryption key as it was.
\<close>

theorem secrets_ops_keep_config:
  "GetConfig (foldl apply_secret_op s ops) name = GetConfig s name \<and>
   GetConfig (snd (SetSecret s now ''encryption_key'' v)) ''encryption_key'' =
     GetConfig s ''encryption_key'' \<and>
   GetConfig (snd (DeleteSecret s ''encryption_key'')) ''encryption_key'' =
     GetConfig s ''encryption_key''"
proof (intro conjI)
  show "GetConfig (foldl apply_secret_op s ops) name = GetConfig s name"
    by (rule GetConfig_cong) (simp_all add: foldl_secret_ops_config)
  show "GetConfig (snd (SetSecret s now ''encryption_key'' v)) ''encryption_key'' =
     GetConfig s ''encryption_key''"
    using apply_secret_op_config[of s "OpSetSecret now ''encryption_key'' v"]
    by (intro GetConfig_cong) simp_all
  show "GetConfig (snd (DeleteSecret s ''encryption_key'')) ''encryption_key'' =
     GetConfig s ''encryption_key''"
    using apply_secret_op_config[of s "OpDeleteSecret ''encryption_key''"]
    by (intro GetConfig_cong) simp_all
qed

section \<open>The export line\<close>

lemma escapedValue_Cons:
  "escapedValue (c # p) = (if shell_special c then [CHR 0x5C, c] else [c]) @ escapedValue p"
  by (simp add: escapedValue_def shell_special_def)

lemma escapedValue_spec: "escapedValue p = spec_escaped p"
proof (induction p)
  case Nil
  show ?case by (simp add: escapedValue_def spec_escaped_def)
next
  case (Cons c p)
  then show ?case by (simp add: escapedValue_Cons spec_escaped_def)
qed

lemma spec_escaped_length:
  "length (spec_escaped p) = length p + length (filter shell_special p)"
  by (induction p) (simp_all add: spec_escaped_def)

lemma posix_dquote_plain:
  "\<not> shell_special c \<Longrightarrow> posix_dquote (c # cs) = map_option (\<lambda>(v, rest). (c # v, rest)) (posix_dquote cs)"
  by (simp add: shell_special_def)

lemma posix_dquote_escaped_char:
  "shell_special c \<Longrightarrow>
   posix_dquote (CHR 0x5C # c # cs) = map_option (\<lambda>(v, rest). (c # v, rest)) (posix_dquote cs)"
  by simp

text \<open>
  What the shell reads back from the escaped text is the plaintext, whatever follows the
  closing quote and whatever bytes the plaintext holds.
\<close>

lemma posix_dquote_spec_escaped:
  "posix_dquote (spec_escaped p @ CHR 0x22 # rest) = Some (p, rest)"
proof (induction p)
  case Nil
  show ?case by (simp add: spec_escaped_def)
next
  case (Cons c p)
  have step: "spec_escaped (c # p) = (if shell_special c then [CHR 0x5C, c] else [c]) @ spec_escaped p"
    by (simp add: spec_escaped_def)
  show ?case
  proof (cases "shell_special c")
    case True
    have "posix_dquote (CHR 0x5C # c # (spec_escaped p @ CHR 0x22 # rest)) = Some (c # p, rest)"
      unfolding posix_dquote_escaped_char[OF True] Cons.IH by simp
    with True show ?thesis by (simp add: step del: posix_dquote.simps)
  next
    case False
    have "posix_dquote (c # (spec_escaped p @ CHR 0x22 # rest)) = Some (c # p, rest)"
      unfolding posix_dquote_plain[OF False] Cons.IH by simp
    with False show ?thesis by (simp add: step del: posix_dquote.simps)
  qed
qed

text \<open>
  Claim C2. For every plaintext without a raw newline, the export line is
  \<^verbatim>\<open>export KEY="<escaped>"\<close> and a newline, where the escaped text is the plaintext
  with one backslash in front of each backslash, double quote, dollar sign and backtick
  and nothing escaped twice (it is longer than the plaintext by the number of those
  characters), and a POSIX shell reading the double-quoted text gets the plaintext back,
  byte for byte, with the newline left after the closing quote.
\<close>

theorem export_line_roundtrip:
  assumes "CHR 0x0A \<notin> set p"
  shows "export_line key p = ''export '' @ key @ [CHR ''='', CHR 0x22] @ spec_escaped p @ [CHR 0x22, CHR 0x0A] \<and>
         length (spec_escaped p) = length p + length (filter shell_special p) \<and>
         posix_dquote (spec_escaped p @ [CHR 0x22, CHR 0x0A]) = Some (p, [CHR 0x0A])"
  by (simp add: export_line_def escapedValue_spec spec_escaped_length posix_dquote_spec_escaped)

theorem export_line_roundtrip_witness:
  "CHR 0x0A \<notin> set (''value'' @ [CHR 0x22] @ ''with'' @ [CHR 0x22] @ ''quotes$and'' @ [CHR 0x60] @ ''backticks'' @ [CHR 0x60]) \<and>
   export_line ''COMPLEX_SECRET''
     (''value'' @ [CHR 0x22] @ ''with'' @ [CHR 0x22] @ ''quotes$and'' @ [CHR 0x60] @ ''backticks'' @ [CHR 0x60]) =
     ''export COMPLEX_SECRET='' @ [CHR 0x22] @ ''value'' @ [CHR 0x5C, CHR 0x22] @ ''with'' @
     [CHR 0x5C, CHR 0x22] @ ''quotes'' @ [CHR 0x5C] @ ''$and'' @ [CHR 0x5C, CHR 0x60] @ ''backticks'' @
     [CHR 0x5C, CHR 0x60, CHR 0x22, CHR 0x0A] \<and>
   posix_dquote (''value'' @ [CHR 0x5C, CHR 0x22] @ ''with'' @
     [CHR 0x5C, CHR 0x22] @ ''quotes'' @ [CHR 0x5C] @ ''$and'' @ [CHR 0x5C, CHR 0x60] @ ''backticks'' @
     [CHR 0x5C, CHR 0x60, CHR 0x22, CHR 0x0A]) =
     Some (''value'' @ [CHR 0x22] @ ''with'' @ [CHR 0x22] @ ''quotes$and'' @ [CHR 0x60] @ ''backticks'' @ [CHR 0x60], [CHR 0x0A])"
  using export_line_roundtrip[of "''value'' @ [CHR 0x22] @ ''with'' @ [CHR 0x22] @ ''quotes$and'' @ [CHR 0x60] @ ''backticks'' @ [CHR 0x60]" "''COMPLEX_SECRET''"]
  by (simp add: spec_escaped_def shell_special_def)

section \<open>The key manager\<close>

lemma fromHexChar_hextable: "d < 16 \<Longrightarrow> fromHexChar (hextable ! d) = Some d"
proof -
  assume "d < 16"
  then have "d = 0 \<or> d = 1 \<or> d = 2 \<or> d = 3 \<or> d = 4 \<or> d = 5 \<or> d = 6 \<or> d = 7 \<or> d = 8 \<or>
             d = 9 \<or> d = 10 \<or> d = 11 \<or> d = 12 \<or> d = 13 \<or> d = 14 \<or> d = 15"
    by arith
  then show ?thesis
    by (elim disjE) (simp_all add: hextable_def fromHexChar_def)
qed

lemma hex_roundtrip: "hex_DecodeString (hex_EncodeToString key) = Inr key"
proof (induction key)
  case Nil
  show ?case by simp
next
  case (Cons v key)
  have "(of_char v :: nat) < 256" by (rule nat_of_char_less_256)
  then have hi: "(of_char v :: nat) div 16 < 16" by arith
  have lo: "(of_char v :: nat) mod 16 < 16" by simp
  show ?case
    using Cons.IH by (simp add: fromHexChar_hextable[OF hi] fromHexChar_hextable[OF lo])
qed

lemma hex_EncodeToString_length: "length (hex_EncodeToString key) = 2 * length key"
  by (induction key) simp_all

lemma hex_decode_abcd: "hex_DecodeString ''abcd'' = Inr [CHR 0xAB, CHR 0xCD]"
  by code_simp

lemma hex_decode_0aff: "hex_DecodeString ''0aff'' = Inr [CHR 0x0A, CHR 0xFF]"
  by code_simp

lemma hex_decode_xyz: "hex_DecodeString ''xyz'' = Inl (InvalidByteError (CHR ''x''))"
  by code_simp

lemma hex_decode_abc: "hex_DecodeString ''abc'' = Inl ErrLength"
  by code_simp

lemma hex_encode_0aff: "hex_EncodeToString [CHR 0x0A, CHR 0xFF] = ''0aff''"
  by code_simp

lemma fmt_sharpU_x: "fmt_sharpU (CHR ''x'') = ''U+0078 '' @ [CHR 0x27, CHR ''x'', CHR 0x27]"
  by (simp add: fmt_sharpU_def)

lemma hex_encode_sample:
  "hex_EncodeToString ''0123456789abcdef0123456789abcdef'' =
     ''3031323334353637383961626364656630313233343536373839616263646566''"
  by code_simp

lemma NewStore_working: "engine_error db = None \<Longrightarrow> NewStore db = Inr db"
  by (simp add: NewStore_def migrate_def)

lemma GetConfig_working:
  "engine_error s = None \<Longrightarrow>
   GetConfig s name = (case map_of (config_rows s) name of None \<Rightarrow> Inl ErrNotFound | Some v \<Rightarrow> Inr v)"
  by (simp add: GetConfig_def sql_QueryRow_def split: option.splits)

lemma getStoreAndKey_stored:
  "engine_error db = None \<Longrightarrow>
   map_of (config_rows db) ''encryption_key'' = Some (hex_EncodeToString key) \<Longrightarrow>
   getStoreAndKey db = Inr (db, key)"
  by (simp add: getStoreAndKey_def NewStore_working GetConfig_working hex_roundtrip)

text \<open>
  Claim C3, as stated, fails: \<open>getStoreAndKey\<close> does not look at the length of what it
  decoded. A config entry holding the four hex digits "abcd" is returned as a key of
  two bytes, with no error.
\<close>

theorem getStoreAndKey_unchecked_length:
  "getStoreAndKey (fresh_db\<lparr>config_rows := [(''encryption_key'', ''abcd'')]\<rparr>) =
     Inr (fresh_db\<lparr>config_rows := [(''encryption_key'', ''abcd'')]\<rparr>, [CHR 0xAB, CHR 0xCD]) \<and>
   length [CHR 0xAB, CHR 0xCD] \<noteq> (32::nat)"
  by (simp add: getStoreAndKey_def NewStore_working GetConfig_working fresh_db_def
      hex_decode_abcd del: hex_DecodeString.simps)

text \<open>
  Claim C3, amended. With a working engine, \<open>getStoreAndKey\<close> fails with the
  not-initialized error when the key config entry is absent and with the decode error
  when the stored string is not hex; otherwise it succeeds and returns the bytes the
  stored string decodes to, however many there are. For a string that is the hex
  encoding of a key, as \<^verbatim>\<open>init\<close> stores it, these are the bytes of that key.
\<close>

theorem getStoreAndKey_results:
  "(engine_error db = None \<and> map_of (config_rows db) ''encryption_key'' = None \<longrightarrow>
      getStoreAndKey db = Inl KeyNotInitialized) \<and>
   (engine_error db = None \<and> map_of (config_rows db) ''encryption_key'' = Some keyHex \<and>
    hex_DecodeString keyHex = Inl err \<longrightarrow>
      getStoreAndKey db = Inl (KeyDecodeFailed (hex_error_text err))) \<and>
   (engine_error db = None \<and> map_of (config_rows db) ''encryption_key'' = Some keyHex \<and>
    hex_DecodeString keyHex = Inr decoded \<longrightarrow>
      getStoreAndKey db = Inr (db, decoded)) \<and>
   (engine_error db = None \<and>
    map_of (config_rows db) ''encryption_key'' = Some (hex_EncodeToString key) \<longrightarrow>
      getStoreAndKey db = Inr (db, key))"
  by (simp add: getStoreAndKey_def NewStore_working GetConfig_working hex_roundtrip)

theorem getStoreAndKey_results_witness:
  "getStoreAndKey fresh_db = Inl KeyNotInitialized \<and>
   getStoreAndKey (fresh_db\<lparr>config_rows := [(''encryption_key'', ''xyz'')]\<rparr>) =
     Inl (KeyDecodeFailed (''encoding/hex: invalid byte: U+0078 '' @ [CHR 0x27, CHR ''x'', CHR 0x27])) \<and>
   getStoreAndKey (fresh_db\<lparr>config_rows := [(''encryption_key'', ''abc'')]\<rparr>) =
     Inl (KeyDecodeFailed ''encoding/hex: odd length hex string'') \<and>
   getStoreAndKey (fresh_db\<lparr>config_rows := [(''encryption_key'', ''0aff'')]\<rparr>) =
     Inr (fresh_db\<lparr>config_rows := [(''encryption_key'', ''0aff'')]\<rparr>, [CHR 0x0A, CHR 0xFF]) \<and>
   hex_EncodeToString [CHR 0x0A, CHR 0xFF] = ''0aff''"
  using getStoreAndKey_results[where db = fresh_db and keyHex = "[]" and err = ErrLength
      and decoded = "[]" and key = "[CHR 0x00]"]
    getStoreAndKey_results[where db = "fresh_db\<lparr>config_rows := [(''encryption_key'', ''xyz'')]\<rparr>"
      and keyHex = "''xyz''" and err = "InvalidByteError (CHR ''x'')"
      and decoded = "[]" and key = "[]"]
    getStoreAndKey_results[where db = "fresh_db\<lparr>config_rows := [(''encryption_key'', ''abc'')]\<rparr>"
      and keyHex = "''abc''" and err = ErrLength and decoded = "[]" and key = "[]"]
    getStoreAndKey_results[where db = "fresh_db\<lparr>config_rows := [(''encryption_key'', ''0aff'')]\<rparr>"
      and keyHex = "''0aff''" and err = ErrLength and decoded = "[CHR 0x0A, CHR 0xFF]" and key = "[CHR 0x0A, CHR 0xFF]"]
  by (simp add: fresh_db_def hex_decode_0aff hex_decode_xyz hex_decode_abc hex_encode_0aff
      fmt_sharpU_x del: hex_DecodeString.simps hex_EncodeToString.simps)

lemma filter_absent_key:
  "map_of tbl key = None \<Longrightarrow> filter (\<lambda>r. fst r \<noteq> key) tbl = tbl"
  by (induction tbl) (auto split: if_splits)

lemma GenerateKey_result:
  "32 \<le> length r \<Longrightarrow> GenerateKey r = (Inr (take 32 r), drop 32 r)"
  by (simp add: GenerateKey_def io_ReadFull_def KeySize_def)

lemma SetConfig_fresh_key:
  "engine_error s = None \<Longrightarrow> map_of (config_rows s) name = None \<Longrightarrow>
   SetConfig s name v = (None, s\<lparr>config_rows := config_rows s @ [(name, v)]\<rparr>)"
  by (simp add: SetConfig_def sql_InsertOrReplace_def filter_absent_key)

lemma initCmd_Run_created:
  assumes "engine_error db = None" "map_of (config_rows db) ''encryption_key'' = None"
    "32 \<le> length r"
  shows "initCmd_Run r db =
     (Created,
      db\<lparr>config_rows := config_rows db @ [(''encryption_key'', hex_EncodeToString (take 32 r))]\<rparr>,
      drop 32 r)"
  using assms
  by (simp add: initCmd_Run_def NewStore_working GetConfig_working GenerateKey_result
      SetConfig_fresh_key)

lemma initCmd_Run_already:
  assumes "engine_error db = None" "map_of (config_rows db) ''encryption_key'' = Some v"
  shows "initCmd_Run r db = (AlreadyInitialized, db, r)"
  using assms
  by (simp add: initCmd_Run_def NewStore_working GetConfig_working)

text \<open>
  Claim C4. On a store with no key config entry (the engine working, the random source
  delivering 32 bytes), \<^verbatim>\<open>init\<close> reports that it created the key, and the store then
  holds the hex encoding of the 32 generated bytes, which \<open>getStoreAndKey\<close> reads back as
  those bytes; run again on that store, it reports that the store is already initialized
  and leaves the store, and so the key, as it was. On any store whose key config entry
  is present it reports already-initialized and changes nothing.
\<close>

theorem initCmd_Run_idempotent:
  "(engine_error db = None \<and> map_of (config_rows db) ''encryption_key'' = None \<and>
    32 \<le> length r \<longrightarrow>
      fst (initCmd_Run r db) = Created \<and>
      length (take 32 r) = 32 \<and>
      length (hex_EncodeToString (take 32 r)) = 64 \<and>
      GetConfig (fst (snd (initCmd_Run r db))) ''encryption_key'' =
        Inr (hex_EncodeToString (take 32 r)) \<and>
      getStoreAndKey (fst (snd (initCmd_Run r db))) =
        Inr (fst (snd (initCmd_Run r db)), take 32 r) \<and>
      initCmd_Run r2 (fst (snd (initCmd_Run r db))) =
        (AlreadyInitialized, fst (snd (initCmd_Run r db)), r2)) \<and>
   (engine_error db = None \<and> map_of (config_rows db) ''encryption_key'' = Some v \<longrightarrow>
      initCmd_Run r db = (AlreadyInitialized, db, r))"
proof (intro conjI impI)
  assume a: "engine_error db = None \<and> map_of (config_rows db) ''encryption_key'' = None \<and>
    32 \<le> length r"
  let ?db' = "db\<lparr>config_rows := config_rows db @
                 [(''encryption_key'', hex_EncodeToString (take 32 r))]\<rparr>"
  have run: "initCmd_Run r db = (Created, ?db', drop 32 r)"
    using a by (simp add: initCmd_Run_created)
  have w: "engine_error ?db' = None" using a by simp
  have k: "map_of (config_rows ?db') ''encryption_key'' = Some (hex_EncodeToString (take 32 r))"
    using a by (simp add: map_add_def)
  show "fst (initCmd_Run r db) = Created" by (simp add: run)
  show "length (take 32 r) = 32" using a by simp
  show "length (hex_EncodeToString (take 32 r)) = 64"
    using a by (simp add: hex_EncodeToString_length)
  have "GetConfig ?db' ''encryption_key'' = Inr (hex_EncodeToString (take 32 r))"
    unfolding GetConfig_working[OF w] k by simp
  then show "GetConfig (fst (snd (initCmd_Run r db))) ''encryption_key'' =
        Inr (hex_EncodeToString (take 32 r))"
    unfolding run by simp
  show "getStoreAndKey (fst (snd (initCmd_Run r db))) =
        Inr (fst (snd (initCmd_Run r db)), take 32 r)"
    unfolding run using getStoreAndKey_stored[OF w k] by simp
  show "initCmd_Run r2 (fst (snd (initCmd_Run r db))) =
        (AlreadyInitialized, fst (snd (initCmd_Run r db)), r2)"
    unfolding run using initCmd_Run_already[OF w k, of r2] by (simp del: map_of_append)
next
  assume "engine_error db = None \<and> map_of (config_rows db) ''encryption_key'' = Some v"
  then show "initCmd_Run r db = (AlreadyInitialized, db, r)"
    by (simp add: initCmd_Run_already)
qed

theorem initCmd_Run_idempotent_witness:
  "engine_error fresh_db = None \<and> map_of (config_rows fresh_db) ''encryption_key'' = None \<and>
   (32::nat) \<le> length ''0123456789abcdef0123456789abcdef'' \<and>
   initCmd_Run ''0123456789abcdef0123456789abcdef'' fresh_db =
     (Created,
      fresh_db\<lparr>config_rows := [(''encryption_key'',
        ''3031323334353637383961626364656630313233343536373839616263646566'')]\<rparr>,
      []) \<and>
   getStoreAndKey (fresh_db\<lparr>config_rows := [(''encryption_key'',
        ''3031323334353637383961626364656630313233343536373839616263646566'')]\<rparr>) =
     Inr (fresh_db\<lparr>config_rows := [(''encryption_key'',
        ''3031323334353637383961626364656630313233343536373839616263646566'')]\<rparr>,
          ''0123456789abcdef0123456789abcdef'') \<and>
   initCmd_Run [] (fresh_db\<lparr>config_rows := [(''encryption_key'',
        ''3031323334353637383961626364656630313233343536373839616263646566'')]\<rparr>) =
     (AlreadyInitialized,
      fresh_db\<lparr>config_rows := [(''encryption_key'',
        ''3031323334353637383961626364656630313233343536373839616263646566'')]\<rparr>,
      [])"
proof -
  have run: "initCmd_Run ''0123456789abcdef0123456789abcdef'' fresh_db =
     (Created,
      fresh_db\<lparr>config_rows := [(''encryption_key'',
        ''3031323334353637383961626364656630313233343536373839616263646566'')]\<rparr>,
      [])"
    using initCmd_Run_created[of fresh_db "''0123456789abcdef0123456789abcdef''"]
    by (simp add: fresh_db_def hex_encode_sample del: hex_EncodeToString.simps)
  show ?thesis
    using initCmd_Run_idempotent[where db = fresh_db
        and r = "''0123456789abcdef0123456789abcdef''" and ?r2.0 = "[]" and v = "[]"]
      initCmd_Run_idempotent[where db = "fresh_db\<lparr>config_rows := [(''encryption_key'',
        ''3031323334353637383961626364656630313233343536373839616263646566'')]\<rparr>"
        and r = "[]" and ?r2.0 = "[]"
        and v = "''3031323334353637383961626364656630313233343536373839616263646566''"]
    unfolding run
    by (simp add: fresh_db_def del: hex_EncodeToString.simps)
qed

section \<open>The get-one handler\<close>

lemma TrimPrefix_secrets: "strings_TrimPrefix (''/secrets/'' @ key) ''/secrets/'' = key"
  by (simp add: strings_TrimPrefix_def)

lemma sent_status_error: "sent_status (Write b (WriteHeader code new_response)) = code"
  by (simp add: sent_status_def Write_def WriteHeader_def new_response_def Let_def)

lemma GetSecret_absent:
  "engine_error s = None \<Longrightarrow> key \<notin> secret_keys s \<Longrightarrow> GetSecret s key = Inl ErrNotFound"
  by (simp add: GetSecret_def sql_QueryRow_def secret_keys_def map_of_eq_None_iff[THEN iffD2])

lemma secretsHandler_key:
  "secretsHandler A store encKey (''/secrets/'' @ key) w =
     (if key = [] then Write ''Error: no key specified'' (WriteHeader 400 w)
      else case GetSecret store key of
        Inl err \<Rightarrow>
          (if err = ErrNotFound
           then Write (''Error: secret '' @ [CHR 0x27] @ key @ [CHR 0x27] @ '' not found'')
                  (WriteHeader 404 w)
           else Write (''Error: '' @ error_text err) (WriteHeader 500 w))
      | Inr encrypted \<Rightarrow>
         (case Decrypt A encrypted encKey of
            Inl err \<Rightarrow> Write (''Error: '' @ error_text err) (WriteHeader 500 w)
          | Inr decrypted \<Rightarrow> Write decrypted (Header_Set ''Content-Type'' ''text/plain'' w)))"
  unfolding secretsHandler_def TrimPrefix_secrets Let_def by (rule refl)

text \<open>
  Claim C9. The get-one endpoint answers 400 when nothing follows \<^verbatim>\<open>/secrets/\<close> in the
  path, 404 when the key is not in the store, 500 on any other error of the store and
  on any error of the decryption, and otherwise 200 with the content type
  \<^verbatim>\<open>text/plain\<close> and the decrypted value as the body.
\<close>

theorem secretsHandler_status:
  "(sent_status (secretsHandler A store encKey ''/secrets/'' new_response) = 400) \<and>
   (key \<noteq> [] \<and> engine_error store = None \<and> key \<notin> secret_keys store \<longrightarrow>
      sent_status (secretsHandler A store encKey (''/secrets/'' @ key) new_response) = 404) \<and>
   (key \<noteq> [] \<and> GetSecret store key = Inl err \<and> err \<noteq> ErrNotFound \<longrightarrow>
      sent_status (secretsHandler A store encKey (''/secrets/'' @ key) new_response) = 500) \<and>
   (key \<noteq> [] \<and> GetSecret store key = Inr encrypted \<and> Decrypt A encrypted encKey = Inl err \<longrightarrow>
      sent_status (secretsHandler A store encKey (''/secrets/'' @ key) new_response) = 500) \<and>
   (key \<noteq> [] \<and> GetSecret store key = Inr encrypted \<and>
    Decrypt A encrypted encKey = Inr decrypted \<longrightarrow>
      sent_status (secretsHandler A store encKey (''/secrets/'' @ key) new_response) = 200 \<and>
      rw_body (secretsHandler A store encKey (''/secrets/'' @ key) new_response) = decrypted \<and>
      map_of (rw_header (secretsHandler A store encKey (''/secrets/'' @ key) new_response))
        ''Content-Type'' = Some ''text/plain'')"
proof (intro conjI impI)
  show "sent_status (secretsHandler A store encKey ''/secrets/'' new_response) = 400"
    using secretsHandler_key[of A store encKey "[]" new_response]
    by (simp add: sent_status_error)
next
  assume "key \<noteq> [] \<and> engine_error store = None \<and> key \<notin> secret_keys store"
  then show "sent_status (secretsHandler A store encKey (''/secrets/'' @ key) new_response) = 404"
    unfolding secretsHandler_key by (simp add: GetSecret_absent sent_status_error)
next
  assume "key \<noteq> [] \<and> GetSecret store key = Inl err \<and> err \<noteq> ErrNotFound"
  then show "sent_status (secretsHandler A store encKey (''/secrets/'' @ key) new_response) = 500"
    unfolding secretsHandler_key by (simp add: sent_status_error)
next
  assume "key \<noteq> [] \<and> GetSecret store key = Inr encrypted \<and> Decrypt A encrypted encKey = Inl err"
  then show "sent_status (secretsHandler A store encKey (''/secrets/'' @ key) new_response) = 500"
    unfolding secretsHandler_key by (simp add: sent_status_error)
next
  assume a: "key \<noteq> [] \<and> GetSecret store key = Inr encrypted \<and>
    Decrypt A encrypted encKey = Inr decrypted"
  then have h: "secretsHandler A store encKey (''/secrets/'' @ key) new_response =
    Write decrypted (Header_Set ''Content-Type'' ''text/plain'' new_response)"
    unfolding secretsHandler_key by simp
  show "sent_status (secretsHandler A store encKey (''/secrets/'' @ key) new_response) = 200"
    unfolding h
    by (simp add: sent_status_def Write_def WriteHeader_def Header_Set_def new_response_def Let_def)
  show "rw_body (secretsHandler A store encKey (''/secrets/'' @ key) new_response) = decrypted"
    unfolding h by (simp add: Write_def WriteHeader_def Header_Set_def new_response_def Let_def)
  show "map_of (rw_header (secretsHandler A store encKey (''/secrets/'' @ key) new_response))
        ''Content-Type'' = Some ''text/plain''"
    unfolding h by (simp add: Write_def WriteHeader_def Header_Set_def new_response_def Let_def)
qed

theorem secretsHandler_status_witness:
  "sent_status (secretsHandler tag_aead fresh_db ''kkkkkkkkkkkkkkkkkkkkkkkkkkkkkkkk''
     ''/secrets/'' new_response) = 400 \<and>
   sent_status (secretsHandler tag_aead fresh_db ''kkkkkkkkkkkkkkkkkkkkkkkkkkkkkkkk''
     ''/secrets/K'' new_response) = 404 \<and>
   sent_status (secretsHandler tag_aead (fresh_db\<lparr>engine_error := Some ''database is locked''\<rparr>)
     ''kkkkkkkkkkkkkkkkkkkkkkkkkkkkkkkk'' ''/secrets/K'' new_response) = 500 \<and>
   sent_status (secretsHandler tag_aead
     (fresh_db\<lparr>secrets_rows := [(''K'',
        \<lparr>row_value = ''nnnnnnnnnnnnvkkkkkkkkkkkkkkkk'', row_created_at = 1, row_updated_at = 1\<rparr>)]\<rparr>)
     ''xxxxxxxxxxxxxxxxxxxxxxxxxxxxxxxx'' ''/secrets/K'' new_response) = 500 \<and>
   secretsHandler tag_aead
     (fresh_db\<lparr>secrets_rows := [(''K'',
        \<lparr>row_value = ''nnnnnnnnnnnnvkkkkkkkkkkkkkkkk'', row_created_at = 1, row_updated_at = 1\<rparr>)]\<rparr>)
     ''kkkkkkkkkkkkkkkkkkkkkkkkkkkkkkkk'' ''/secrets/K'' new_response =
     \<lparr>rw_status = Some 200, rw_header = [(''Content-Type'', ''text/plain'')], rw_body = ''v''\<rparr>"
  using secretsHandler_status[where A = tag_aead and store = fresh_db
      and encKey = "''kkkkkkkkkkkkkkkkkkkkkkkkkkkkkkkk''" and key = "''K''" and err = ErrNotFound
      and encrypted = "[]" and decrypted = "[]"]
    secretsHandler_status[where A = tag_aead
      and store = "fresh_db\<lparr>engine_error := Some ''database is locked''\<rparr>"
      and encKey = "''kkkkkkkkkkkkkkkkkkkkkkkkkkkkkkkk''" and key = "''K''"
      and err = "StorageFailed ''failed to get secret'' ''database is locked''"
      and encrypted = "[]" and decrypted = "[]"]
    secretsHandler_status[where A = tag_aead
      and store = "fresh_db\<lparr>secrets_rows := [(''K'',
        \<lparr>row_value = ''nnnnnnnnnnnnvkkkkkkkkkkkkkkkk'', row_created_at = 1, row_updated_at = 1\<rparr>)]\<rparr>"
      and encKey = "''xxxxxxxxxxxxxxxxxxxxxxxxxxxxxxxx''" and key = "''K''"
      and err = "DecryptionFailed errOpen"
      and encrypted = "''nnnnnnnnnnnnvkkkkkkkkkkkkkkkk''" and decrypted = "[]"]
    secretsHandler_status[where A = tag_aead
      and store = "fresh_db\<lparr>secrets_rows := [(''K'',
        \<lparr>row_value = ''nnnnnnnnnnnnvkkkkkkkkkkkkkkkk'', row_created_at = 1, row_updated_at = 1\<rparr>)]\<rparr>"
      and encKey = "''kkkkkkkkkkkkkkkkkkkkkkkkkkkkkkkk''" and key = "''K''"
      and err = "DecryptionFailed errOpen"
      and encrypted = "''nnnnnnnnnnnnvkkkkkkkkkkkkkkkk''" and decrypted = "''v''"]
  by (simp add: secretsHandler_def strings_TrimPrefix_def GetSecret_def
      sql_QueryRow_def fresh_db_def Decrypt_def KeySize_def NonceSize_def aes_NewCipher_def
      cipher_NewGCM_def tag_aead_def Write_def WriteHeader_def Header_Set_def new_response_def
      sent_status_def secret_keys_def Let_def)

end
